theory Spec2Isabelle
  imports Complex_Main
begin

section \<open>Data model (types/app.types.ts, types/canvas.types.ts, types/tools.types.ts)\<close>

text \<open>
  A JavaScript \<open>number\<close> is taken as a real number (exact arithmetic); an optional field
  \<open>f?: T\<close> is a \<open>T option\<close>, with \<open>None\<close> for \<open>undefined\<close>. Field names that would
  shadow short variable names or HOL constants carry a prefix (\<open>x\<close> is \<open>pt_x\<close>,
  \<open>id\<close>, \<open>type\<close>, \<open>points\<close>, \<open>style\<close> of a command are \<open>cmd_id\<close>, \<open>cmd_type\<close>,
  \<open>cmd_points\<close>, \<open>cmd_style\<close>; \<open>type\<close>, \<open>size\<close> of the tool settings are \<open>tool_type\<close>, \<open>tool_size\<close>).
\<close>

record RGBColor =
  col_r :: real
  col_g :: real
  col_b :: real
  col_a :: "real option"

record Point =
  pt_x :: real
  pt_y :: real
  pressure :: "real option"

record StrokeStyle =
  color :: RGBColor
  width :: real
  opacity :: "real option"

datatype CommandType = stroke | erase | clear

record DrawCommand =
  cmd_id :: string
  cmd_type :: CommandType
  cmd_points :: "Point list option"
  cmd_style :: "StrokeStyle option"

record Offset =
  off_x :: real
  off_y :: real

record Dimensions =
  dim_width :: real
  dim_height :: real

record CanvasState =
  commands :: "DrawCommand list"
  currentCommand :: "DrawCommand option"
  scale :: real
  offset :: Offset
  dimensions :: Dimensions

datatype CanvasAction =
    START_STROKE string Point StrokeStyle
  | ADD_POINT Point
  | END_STROKE
  | CLEAR_CANVAS
  | UNDO
  | REDO
  | SET_SCALE real
  | SET_OFFSET real real
  | SET_DIMENSIONS real real

datatype ToolType = pen | eraser | selector

record ToolSettings =
  tool_type :: ToolType
  tool_color :: RGBColor
  tool_size :: real
  tool_opacity :: real

datatype ToolAction =
    SET_TOOL ToolType
  | SET_COLOR RGBColor
  | SET_SIZE real
  | SET_OPACITY real

section \<open>The canvas reducer (contexts/CanvasContext.tsx)\<close>

text \<open>
  \<open>Array.prototype.slice(start, end)\<close> of the JavaScript runtime: a negative index counts
  from the end of the array, and both indices are clamped to the array.
\<close>

definition slice :: "'a list \<Rightarrow> int \<Rightarrow> int \<Rightarrow> 'a list" where
  "slice xs start end' =
     (let n = int (length xs);
          k = (if start < 0 then max (n + start) 0 else min start n);
          e = (if end' < 0 then max (n + end') 0 else min end' n)
      in take (nat (e - k)) (drop (nat k) xs))"

definition initialCanvasState :: CanvasState where
  "initialCanvasState =
     \<lparr>commands = [], currentCommand = None, scale = 1,
      offset = \<lparr>off_x = 0, off_y = 0\<rparr>,
      dimensions = \<lparr>dim_width = 0, dim_height = 0\<rparr>\<rparr>"

text \<open>
  The reducer, one equation per \<open>case\<close> of the \<open>switch\<close>. An object is always truthy, so
  \<open>!state.currentCommand\<close> holds exactly when the field is \<open>undefined\<close>, and
  \<open>points || []\<close> is \<open>[]\<close> exactly when \<open>points\<close> is \<open>undefined\<close> (an empty array is
  truthy). \<open>REDO\<close> has no \<open>case\<close> and falls to \<open>default\<close>.
\<close>

fun canvasReducer :: "CanvasState \<Rightarrow> CanvasAction \<Rightarrow> CanvasState" where
  "canvasReducer state (START_STROKE newId point st) =
     state\<lparr>currentCommand :=
       Some \<lparr>cmd_id = newId, cmd_type = stroke, cmd_points = Some [point], cmd_style = Some st\<rparr>\<rparr>"
| "canvasReducer state (ADD_POINT point) =
     (case currentCommand state of
        None \<Rightarrow> state
      | Some cur \<Rightarrow>
          state\<lparr>currentCommand :=
            Some (cur\<lparr>cmd_points :=
              Some ((case cmd_points cur of None \<Rightarrow> [] | Some ps \<Rightarrow> ps) @ [point])\<rparr>)\<rparr>)"
| "canvasReducer state END_STROKE =
     (case currentCommand state of
        None \<Rightarrow> state
      | Some cur \<Rightarrow> state\<lparr>commands := commands state @ [cur], currentCommand := None\<rparr>)"
| "canvasReducer state CLEAR_CANVAS = state\<lparr>commands := [], currentCommand := None\<rparr>"
| "canvasReducer state UNDO =
     (if length (commands state) = 0 then state
      else state\<lparr>commands := slice (commands state) 0 (- 1)\<rparr>)"
| "canvasReducer state (SET_SCALE sc) = state\<lparr>scale := sc\<rparr>"
| "canvasReducer state (SET_OFFSET ox oy) = state\<lparr>offset := \<lparr>off_x = ox, off_y = oy\<rparr>\<rparr>"
| "canvasReducer state (SET_DIMENSIONS w h) =
     state\<lparr>dimensions := \<lparr>dim_width = w, dim_height = h\<rparr>\<rparr>"
| "canvasReducer state REDO = state"

text \<open>
  The helper functions of \<open>CanvasProvider\<close>. Each dispatches one action; the state after
  the dispatch is the reducer's result. \<open>generateId()\<close> draws a random string: its result
  is the parameter \<open>newId\<close>.
\<close>

definition startStroke ::
  "string \<Rightarrow> real \<Rightarrow> real \<Rightarrow> RGBColor \<Rightarrow> real \<Rightarrow> CanvasState \<Rightarrow> CanvasState" where
  "startStroke newId x y col w state =
     canvasReducer state
       (START_STROKE newId \<lparr>pt_x = x, pt_y = y, pressure = None\<rparr>
          \<lparr>color = col, width = w, opacity = None\<rparr>)"

definition continueStroke :: "real \<Rightarrow> real \<Rightarrow> CanvasState \<Rightarrow> CanvasState" where
  "continueStroke x y state =
     canvasReducer state (ADD_POINT \<lparr>pt_x = x, pt_y = y, pressure = None\<rparr>)"

definition endStroke :: "CanvasState \<Rightarrow> CanvasState" where
  "endStroke state = canvasReducer state END_STROKE"

definition clearCanvas :: "CanvasState \<Rightarrow> CanvasState" where
  "clearCanvas state = canvasReducer state CLEAR_CANVAS"

definition undo :: "CanvasState \<Rightarrow> CanvasState" where
  "undo state = canvasReducer state UNDO"

section \<open>The tool reducer (contexts/ToolContext.tsx)\<close>

definition initialToolSettings :: ToolSettings where
  "initialToolSettings =
     \<lparr>tool_type = pen, tool_color = \<lparr>col_r = 0, col_g = 0, col_b = 0, col_a = Some 1\<rparr>,
      tool_size = 5, tool_opacity = 1\<rparr>"

fun toolReducer :: "ToolSettings \<Rightarrow> ToolAction \<Rightarrow> ToolSettings" where
  "toolReducer state (SET_TOOL t) = state\<lparr>tool_type := t\<rparr>"
| "toolReducer state (SET_COLOR c) = state\<lparr>tool_color := c\<rparr>"
| "toolReducer state (SET_SIZE sz) = state\<lparr>tool_size := sz\<rparr>"
| "toolReducer state (SET_OPACITY opa) = state\<lparr>tool_opacity := opa\<rparr>"

section \<open>Pointer handling (components/Canvas.tsx, components/ToolBar.tsx)\<close>

text \<open>
  The application holds the canvas state and the tool settings side by side. The pan
  responder of \<open>Canvas\<close> reads \<open>color\<close> and \<open>size\<close> of the tool settings when the touch is
  granted and calls the provider's helpers; release and terminate both call \<open>endStroke\<close>.
\<close>

record AppState =
  canvas :: CanvasState
  tool :: ToolSettings

definition onPanResponderGrant :: "string \<Rightarrow> real \<Rightarrow> real \<Rightarrow> AppState \<Rightarrow> AppState" where
  "onPanResponderGrant newId locationX locationY app =
     app\<lparr>canvas :=
       startStroke newId locationX locationY (tool_color (tool app)) (tool_size (tool app))
         (canvas app)\<rparr>"

definition onPanResponderMove :: "real \<Rightarrow> real \<Rightarrow> AppState \<Rightarrow> AppState" where
  "onPanResponderMove locationX locationY app =
     app\<lparr>canvas := continueStroke locationX locationY (canvas app)\<rparr>"

definition onPanResponderRelease :: "AppState \<Rightarrow> AppState" where
  "onPanResponderRelease app = app\<lparr>canvas := endStroke (canvas app)\<rparr>"

definition onPanResponderTerminate :: "AppState \<Rightarrow> AppState" where
  "onPanResponderTerminate app = app\<lparr>canvas := endStroke (canvas app)\<rparr>"

text \<open>
  The style that the spec's words describe: a stroke style has a colour, a width and an
  opacity, and it is the snapshot of the tool settings (stroke colour, stroke width,
  opacity) taken at pointerDown. This definition follows the spec, not the source; it is
  what the style of the source is compared with.
\<close>

definition specStyleSnapshot :: "ToolSettings \<Rightarrow> StrokeStyle" where
  "specStyleSnapshot t =
     \<lparr>color = tool_color t, width = tool_size t, opacity = Some (tool_opacity t)\<rparr>"

text \<open>
  The events the application reacts to: the four pointer events, the undo and clear
  buttons of the tool bar, and a change of the tool settings.
\<close>

datatype Event =
    PointerDown string real real
  | PointerMove real real
  | PointerUp
  | PointerCancel
  | UndoPressed
  | ClearPressed
  | ToolChange ToolAction

fun step :: "AppState \<Rightarrow> Event \<Rightarrow> AppState" where
  "step app (PointerDown newId x y) = onPanResponderGrant newId x y app"
| "step app (PointerMove x y) = onPanResponderMove x y app"
| "step app PointerUp = onPanResponderRelease app"
| "step app PointerCancel = onPanResponderTerminate app"
| "step app UndoPressed = app\<lparr>canvas := undo (canvas app)\<rparr>"
| "step app ClearPressed = app\<lparr>canvas := clearCanvas (canvas app)\<rparr>"
| "step app (ToolChange a) = app\<lparr>tool := toolReducer (tool app) a\<rparr>"

definition run :: "AppState \<Rightarrow> Event list \<Rightarrow> AppState" where
  "run app evs = foldl step app evs"

section \<open>Path smoothing (modules/canvas/bezierUtils.ts)\<close>

definition getControlPoints :: "Point \<Rightarrow> Point \<Rightarrow> Point \<Rightarrow> Point" where
  "getControlPoints p0 p1 p2 =
     \<lparr>pt_x = pt_x p1 + (pt_x p2 - pt_x p0) / 6,
      pt_y = pt_y p1 + (pt_y p2 - pt_y p0) / 6,
      pressure = None\<rparr>"

text \<open>
  \<open>simplifyPath\<close> compares two points with \<open>!==\<close>, which on objects is identity of
  reference, not equality of coordinates. The points of the array are therefore references
  into a store of point objects; the same reference may occur several times in an array, and
  two references may hold equal coordinates. The function reads the store and never writes it.
  The parameter \<open>tolerance\<close> has the default value 2, which the calls in \<open>Canvas\<close> take.
\<close>

type_synonym ref = nat
type_synonym heap = "ref \<Rightarrow> Point"

text \<open>
  The \<open>for\<close> loop visits \<open>points[1]\<close>, \<open>points[2]\<close>, ... in order: the recursion runs over
  the elements still to visit, and carries \<open>result\<close> and \<open>lastPoint\<close>.
\<close>

fun simplifyLoop :: "heap \<Rightarrow> real \<Rightarrow> ref list \<Rightarrow> ref list \<Rightarrow> ref \<Rightarrow> ref list" where
  "simplifyLoop h tolerance [] result lastPoint = result"
| "simplifyLoop h tolerance (point # rest) result lastPoint =
     (let distance =
            sqrt ((pt_x (h point) - pt_x (h lastPoint))\<^sup>2
                  + (pt_y (h point) - pt_y (h lastPoint))\<^sup>2)
      in if distance \<ge> tolerance
         then simplifyLoop h tolerance rest (result @ [point]) point
         else simplifyLoop h tolerance rest result lastPoint)"

definition simplifyPath :: "heap \<Rightarrow> ref list \<Rightarrow> real \<Rightarrow> ref list" where
  "simplifyPath h points tolerance =
     (if length points \<le> 2 then points
      else
        let result = simplifyLoop h tolerance (drop 1 points) [points ! 0] (points ! 0)
        in if result ! (length result - 1) \<noteq> points ! (length points - 1)
           then result @ [points ! (length points - 1)]
           else result)"

text \<open>
  \<open>createSmoothPath\<close> only reads coordinates, so it takes the point values. The template
  literals turn numbers into text with the runtime's number formatting, which is the
  parameter \<open>fmt\<close>. The loop runs over the index \<open>i\<close>, as in the source; it is entered only
  for arrays of three or more points, where \<open>length points - 1\<close> does not truncate.
\<close>

function smoothLoop :: "(real \<Rightarrow> string) \<Rightarrow> Point list \<Rightarrow> nat \<Rightarrow> string \<Rightarrow> string" where
  "smoothLoop fmt points i path =
     (if i < length points - 1 then
        (let p0 = points ! (i - 1);
             p1 = points ! i;
             p2 = points ! (i + 1);
             cp = getControlPoints p0 p1 p2
         in smoothLoop fmt points (i + 1)
              (path @ '' Q '' @ fmt (pt_x cp) @ '','' @ fmt (pt_y cp) @ '' ''
                 @ fmt ((pt_x p1 + pt_x p2) / 2) @ '','' @ fmt ((pt_y p1 + pt_y p2) / 2)))
      else path)"
  by pat_completeness auto
termination
  by (relation "measure (\<lambda>(fmt, points, i, path). length points - 1 - i)") auto

declare smoothLoop.simps [simp del]

definition createSmoothPath :: "(real \<Rightarrow> string) \<Rightarrow> Point list \<Rightarrow> string" where
  "createSmoothPath fmt points =
     (if length points < 2 then []
      else
        let path = ''M '' @ fmt (pt_x (points ! 0)) @ '','' @ fmt (pt_y (points ! 0))
        in if length points = 2
           then path @ '' L '' @ fmt (pt_x (points ! 1)) @ '','' @ fmt (pt_y (points ! 1))
           else
             let path = path @ '' Q '' @ fmt (pt_x (points ! 0)) @ '','' @ fmt (pt_y (points ! 0))
                          @ '' '' @ fmt ((pt_x (points ! 0) + pt_x (points ! 1)) / 2)
                          @ '','' @ fmt ((pt_y (points ! 0) + pt_y (points ! 1)) / 2);
                 path = smoothLoop fmt points 1 path;
                 lastIndex = length points - 1
             in path @ '' L '' @ fmt (pt_x (points ! lastIndex)) @ '',''
                  @ fmt (pt_y (points ! lastIndex)))"

subsection \<open>The curve as a list of SVG path commands\<close>

text \<open>
  The spec describes the result of \<open>createSmoothPath\<close> as a curve made of segments. A curve
  is a list of path commands: move to a point, a straight line to a point, and a quadratic
  curve with a control point and an end point. \<open>render\<close> writes a curve as SVG path data, in
  the layout of the source's template literals.
\<close>

datatype PathSeg =
    MoveTo real real
  | LineTo real real
  | QuadTo real real real real

fun renderSeg :: "(real \<Rightarrow> string) \<Rightarrow> PathSeg \<Rightarrow> string" where
  "renderSeg fmt (MoveTo ax ay) = ''M '' @ fmt ax @ '','' @ fmt ay"
| "renderSeg fmt (LineTo ax ay) = '' L '' @ fmt ax @ '','' @ fmt ay"
| "renderSeg fmt (QuadTo cx cy ex ey) =
     '' Q '' @ fmt cx @ '','' @ fmt cy @ '' '' @ fmt ex @ '','' @ fmt ey"

definition render :: "(real \<Rightarrow> string) \<Rightarrow> PathSeg list \<Rightarrow> string" where
  "render fmt segs = concat (map (renderSeg fmt) segs)"

text \<open>
  The interior segment of index \<open>i\<close> as the spec words it: control point
  \<open>p\<^sub>i + (p\<^sub>i\<^sub>+\<^sub>1 - p\<^sub>i\<^sub>-\<^sub>1) / 6\<close>, end point the midpoint of \<open>p\<^sub>i\<close> and \<open>p\<^sub>i\<^sub>+\<^sub>1\<close>.
\<close>

definition interiorSeg :: "Point list \<Rightarrow> nat \<Rightarrow> PathSeg" where
  "interiorSeg ps i =
     QuadTo (pt_x (ps ! i) + (pt_x (ps ! (i + 1)) - pt_x (ps ! (i - 1))) / 6)
            (pt_y (ps ! i) + (pt_y (ps ! (i + 1)) - pt_y (ps ! (i - 1))) / 6)
            ((pt_x (ps ! i) + pt_x (ps ! (i + 1))) / 2)
            ((pt_y (ps ! i) + pt_y (ps ! (i + 1))) / 2)"

text \<open>
  A number formatting for integral values, as \<open>Number.prototype.toString\<close> prints integers
  of small magnitude: decimal digits, with a minus sign for negative values. It serves to
  run \<open>createSmoothPath\<close> at concrete points.
\<close>

fun showNat :: "nat \<Rightarrow> string" where
  "showNat n =
     (if n < 10 then [''0123456789'' ! n]
      else showNat (n div 10) @ [''0123456789'' ! (n mod 10)])"

declare showNat.simps [simp del]

definition showIntegral :: "real \<Rightarrow> string" where
  "showIntegral v = (if v < 0 then ''-'' @ showNat (nat \<lfloor>- v\<rfloor>) else showNat (nat \<lfloor>v\<rfloor>))"

section \<open>Properties of the canvas state machine\<close>

lemma slice_drop_last: "slice (xs @ [x]) 0 (- 1) = xs"
  by (simp add: slice_def)

lemma run_Nil: "run app [] = app"
  by (simp add: run_def)

lemma run_Cons: "run app (e # evs) = run (step app e) evs"
  by (simp add: run_def)

lemma run_append: "run app (es @ fs) = run (run app es) fs"
  by (simp add: run_def)

lemma canvas_run_ToolChange: "canvas (run app (map ToolChange ts)) = canvas app"
  by (induction ts arbitrary: app) (simp_all add: run_Nil run_Cons)

text \<open>
  Claim C1, as the code has it. From any application state, the events pointerDown at
  \<open>(x0, y0)\<close>, pointerMove to \<open>(x1, y1)\<close>, pointerMove to \<open>(x2, y2)\<close> and pointerUp, with any
  changes of the tool settings between them, leave a canvas state that differs from the
  first one only in this: one command is appended to the end of the log, with the three
  points in order, and there is no command in progress. The style of that command holds the
  colour and the size that the tool settings had at pointerDown, and no opacity: the pan
  responder passes \<open>color\<close> and \<open>size\<close> only, and \<open>startStroke\<close> builds the style
  \<open>{ color, width }\<close>, so the opacity of the tool settings is not part of the snapshot.
\<close>

theorem stroke_sequence_commits_one_command:
  "canvas (run app ([PointerDown newId x0 y0] @ map ToolChange ts1
                    @ [PointerMove x1 y1] @ map ToolChange ts2
                    @ [PointerMove x2 y2] @ map ToolChange ts3
                    @ [PointerUp]))
   = (canvas app)\<lparr>commands := commands (canvas app) @
        [\<lparr>cmd_id = newId, cmd_type = stroke,
          cmd_points = Some [\<lparr>pt_x = x0, pt_y = y0, pressure = None\<rparr>,
                             \<lparr>pt_x = x1, pt_y = y1, pressure = None\<rparr>,
                             \<lparr>pt_x = x2, pt_y = y2, pressure = None\<rparr>],
          cmd_style = Some \<lparr>color = tool_color (tool app), width = tool_size (tool app),
                            opacity = None\<rparr>\<rparr>],
      currentCommand := None\<rparr>"
proof -
  define a1 where "a1 = step app (PointerDown newId x0 y0)"
  define a2 where "a2 = step (run a1 (map ToolChange ts1)) (PointerMove x1 y1)"
  define a3 where "a3 = step (run a2 (map ToolChange ts2)) (PointerMove x2 y2)"
  have c1: "canvas a1 = (canvas app)\<lparr>currentCommand :=
      Some \<lparr>cmd_id = newId, cmd_type = stroke,
          cmd_points = Some [\<lparr>pt_x = x0, pt_y = y0, pressure = None\<rparr>],
          cmd_style = Some \<lparr>color = tool_color (tool app), width = tool_size (tool app),
                            opacity = None\<rparr>\<rparr>\<rparr>"
    by (simp add: a1_def onPanResponderGrant_def startStroke_def)
  have c2: "canvas a2 = (canvas app)\<lparr>currentCommand :=
      Some \<lparr>cmd_id = newId, cmd_type = stroke,
          cmd_points = Some [\<lparr>pt_x = x0, pt_y = y0, pressure = None\<rparr>,
                             \<lparr>pt_x = x1, pt_y = y1, pressure = None\<rparr>],
          cmd_style = Some \<lparr>color = tool_color (tool app), width = tool_size (tool app),
                            opacity = None\<rparr>\<rparr>\<rparr>"
    by (simp add: a2_def onPanResponderMove_def continueStroke_def canvas_run_ToolChange c1)
  have c3: "canvas a3 = (canvas app)\<lparr>currentCommand :=
      Some \<lparr>cmd_id = newId, cmd_type = stroke,
          cmd_points = Some [\<lparr>pt_x = x0, pt_y = y0, pressure = None\<rparr>,
                             \<lparr>pt_x = x1, pt_y = y1, pressure = None\<rparr>,
                             \<lparr>pt_x = x2, pt_y = y2, pressure = None\<rparr>],
          cmd_style = Some \<lparr>color = tool_color (tool app), width = tool_size (tool app),
                            opacity = None\<rparr>\<rparr>\<rparr>"
    by (simp add: a3_def onPanResponderMove_def continueStroke_def canvas_run_ToolChange c2)
  have "run app ([PointerDown newId x0 y0] @ map ToolChange ts1
                    @ [PointerMove x1 y1] @ map ToolChange ts2
                    @ [PointerMove x2 y2] @ map ToolChange ts3
                    @ [PointerUp])
        = step (run a3 (map ToolChange ts3)) PointerUp"
    by (simp add: run_append run_Cons run_Nil a1_def a2_def a3_def del: step.simps)
  then show ?thesis
    by (simp add: onPanResponderRelease_def endStroke_def canvas_run_ToolChange c3)
qed

text \<open>
  The theorem at a concrete gesture on the initial state: the size is set to 9 and the
  colour to red while the stroke is drawn, and the committed command still carries the
  initial black colour and size 5.
\<close>

theorem stroke_sequence_commits_one_command_witness:
  "commands (canvas (run \<lparr>canvas = initialCanvasState, tool = initialToolSettings\<rparr>
      [PointerDown ''s1'' 0 0, ToolChange (SET_SIZE 9), PointerMove 10 0,
       ToolChange (SET_COLOR \<lparr>col_r = 255, col_g = 0, col_b = 0, col_a = Some 1\<rparr>),
       PointerMove 20 5, PointerUp]))
   = [\<lparr>cmd_id = ''s1'', cmd_type = stroke,
       cmd_points = Some [\<lparr>pt_x = 0, pt_y = 0, pressure = None\<rparr>,
                          \<lparr>pt_x = 10, pt_y = 0, pressure = None\<rparr>,
                          \<lparr>pt_x = 20, pt_y = 5, pressure = None\<rparr>],
       cmd_style = Some \<lparr>color = \<lparr>col_r = 0, col_g = 0, col_b = 0, col_a = Some 1\<rparr>,
                         width = 5, opacity = None\<rparr>\<rparr>]"
  using stroke_sequence_commits_one_command
    [of "\<lparr>canvas = initialCanvasState, tool = initialToolSettings\<rparr>" "''s1''" 0 0
        "[SET_SIZE 9]" 10 0
        "[SET_COLOR \<lparr>col_r = 255, col_g = 0, col_b = 0, col_a = Some 1\<rparr>]" 20 5 "[]"]
  by (simp add: initialCanvasState_def initialToolSettings_def)

text \<open>
  Claim C1 as the spec states it asks for a style equal to the tool settings sampled at
  pointerDown, opacity included. On the initial state, whose tool settings have opacity 1,
  the stroke through \<open>(0, 0)\<close>, \<open>(10, 0)\<close> and \<open>(20, 5)\<close> commits a command whose style has no
  opacity, so it is not that snapshot.
\<close>

theorem stroke_style_lacks_opacity_counterexample:
  "cmd_style (last (commands (canvas
      (run \<lparr>canvas = initialCanvasState, tool = initialToolSettings\<rparr>
         [PointerDown ''s1'' 0 0, PointerMove 10 0, PointerMove 20 5, PointerUp]))))
   \<noteq> Some (specStyleSnapshot initialToolSettings)"
  by (simp add: run_def onPanResponderGrant_def onPanResponderMove_def
      onPanResponderRelease_def startStroke_def continueStroke_def endStroke_def
      initialCanvasState_def initialToolSettings_def specStyleSnapshot_def)

text \<open>
  Claim C2. \<open>undo\<close> on a log \<open>cs @ [c]\<close> leaves the log \<open>cs\<close>, in the same order, and
  changes nothing else of the state; on an empty log it returns the state unchanged; in both
  cases the command in progress is the one before.
\<close>

theorem undo_removes_last_entry:
  "(commands s = cs @ [c] \<longrightarrow> undo s = s\<lparr>commands := cs\<rparr>)
   \<and> (commands s = [] \<longrightarrow> undo s = s)
   \<and> currentCommand (undo s) = currentCommand s"
  by (auto simp add: undo_def slice_drop_last)

theorem undo_removes_last_entry_witness:
  "undo (initialCanvasState
          \<lparr>commands :=
             [\<lparr>cmd_id = ''a'', cmd_type = stroke, cmd_points = Some [], cmd_style = None\<rparr>,
              \<lparr>cmd_id = ''b'', cmd_type = stroke, cmd_points = Some [], cmd_style = None\<rparr>]\<rparr>)
     = initialCanvasState
         \<lparr>commands :=
            [\<lparr>cmd_id = ''a'', cmd_type = stroke, cmd_points = Some [], cmd_style = None\<rparr>]\<rparr>
   \<and> undo initialCanvasState = initialCanvasState"
  using undo_removes_last_entry
      [of "initialCanvasState
          \<lparr>commands :=
             [\<lparr>cmd_id = ''a'', cmd_type = stroke, cmd_points = Some [], cmd_style = None\<rparr>,
              \<lparr>cmd_id = ''b'', cmd_type = stroke, cmd_points = Some [], cmd_style = None\<rparr>]\<rparr>"
          "[\<lparr>cmd_id = ''a'', cmd_type = stroke, cmd_points = Some [], cmd_style = None\<rparr>]"
          "\<lparr>cmd_id = ''b'', cmd_type = stroke, cmd_points = Some [], cmd_style = None\<rparr>"]
    undo_removes_last_entry [of initialCanvasState]
  by (simp add: initialCanvasState_def)

text \<open>
  Claim C6. The claim asks for a command of kind \<open>erase\<close> when the eraser tool is active.
  Evaluated on the initial state with the eraser selected, pointerDown at \<open>(0, 0)\<close> installs
  a command of kind \<open>stroke\<close>: the reducer writes \<open>type: 'stroke'\<close> whatever the tool, and
  the pan responder passes only the colour and the size of the tool settings.
\<close>

theorem eraser_pointerDown_installs_stroke:
  "currentCommand (canvas (step \<lparr>canvas = initialCanvasState,
                                 tool = toolReducer initialToolSettings (SET_TOOL eraser)\<rparr>
                                (PointerDown ''a'' 0 0)))
   = Some \<lparr>cmd_id = ''a'', cmd_type = stroke,
           cmd_points = Some [\<lparr>pt_x = 0, pt_y = 0, pressure = None\<rparr>],
           cmd_style = Some \<lparr>color = \<lparr>col_r = 0, col_g = 0, col_b = 0, col_a = Some 1\<rparr>,
                             width = 5, opacity = None\<rparr>\<rparr>"
  by (simp add: onPanResponderGrant_def startStroke_def initialCanvasState_def
      initialToolSettings_def)

text \<open>
  Claim C7. From any canvas state, with any log and with or without a command in progress,
  \<open>clearCanvas\<close> gives a state with an empty log and no command in progress.
\<close>

theorem clear_empties_canvas:
  "commands (clearCanvas s) = [] \<and> currentCommand (clearCanvas s) = None"
  by (simp add: clearCanvas_def)

text \<open>
  Claim C8. When no command is in progress, pointerMove, pointerUp and pointerCancel return
  the application state unchanged. The reducer and the handlers have no failing branch: each
  is a total function to a state.
\<close>

theorem no_stroke_pointer_events_noop:
  "currentCommand (canvas app) = None \<Longrightarrow>
     step app (PointerMove x y) = app \<and> step app PointerUp = app \<and> step app PointerCancel = app"
  by (simp add: onPanResponderMove_def onPanResponderRelease_def onPanResponderTerminate_def
      continueStroke_def endStroke_def)

theorem no_stroke_pointer_events_noop_witness:
  "currentCommand (canvas \<lparr>canvas = initialCanvasState, tool = initialToolSettings\<rparr>) = None
   \<and> step \<lparr>canvas = initialCanvasState, tool = initialToolSettings\<rparr> (PointerMove 3 4)
       = \<lparr>canvas = initialCanvasState, tool = initialToolSettings\<rparr>
   \<and> step \<lparr>canvas = initialCanvasState, tool = initialToolSettings\<rparr> PointerUp
       = \<lparr>canvas = initialCanvasState, tool = initialToolSettings\<rparr>
   \<and> step \<lparr>canvas = initialCanvasState, tool = initialToolSettings\<rparr> PointerCancel
       = \<lparr>canvas = initialCanvasState, tool = initialToolSettings\<rparr>"
proof -
  have idle:
    "currentCommand (canvas \<lparr>canvas = initialCanvasState, tool = initialToolSettings\<rparr>) = None"
    by (simp add: initialCanvasState_def)
  show ?thesis
    using idle no_stroke_pointer_events_noop [OF idle, of 3 4] by (simp del: step.simps)
qed

text \<open>
  Claim C10. In a state that has a command in progress, \<open>START_STROKE\<close> puts a fresh command
  with the new point alone in its place and changes nothing else: the log is the same, the
  points of the earlier command are in neither the log nor the command in progress, and an
  \<open>END_STROKE\<close> that follows commits the fresh command only.
\<close>

theorem second_pointerDown_restarts:
  "currentCommand s = Some cur \<Longrightarrow>
     canvasReducer s (START_STROKE newId p st)
       = s\<lparr>currentCommand :=
            Some \<lparr>cmd_id = newId, cmd_type = stroke, cmd_points = Some [p],
                  cmd_style = Some st\<rparr>\<rparr>
     \<and> commands (canvasReducer s (START_STROKE newId p st)) = commands s
     \<and> commands (canvasReducer (canvasReducer s (START_STROKE newId p st)) END_STROKE)
         = commands s @ [\<lparr>cmd_id = newId, cmd_type = stroke, cmd_points = Some [p],
                           cmd_style = Some st\<rparr>]"
  by simp

theorem second_pointerDown_restarts_witness:
  "currentCommand
     (initialCanvasState\<lparr>currentCommand :=
        Some \<lparr>cmd_id = ''a'', cmd_type = stroke,
              cmd_points = Some [\<lparr>pt_x = 1, pt_y = 1, pressure = None\<rparr>,
                                 \<lparr>pt_x = 2, pt_y = 2, pressure = None\<rparr>],
              cmd_style = None\<rparr>\<rparr>)
     = Some \<lparr>cmd_id = ''a'', cmd_type = stroke,
              cmd_points = Some [\<lparr>pt_x = 1, pt_y = 1, pressure = None\<rparr>,
                                 \<lparr>pt_x = 2, pt_y = 2, pressure = None\<rparr>],
              cmd_style = None\<rparr>
   \<and> canvasReducer
       (initialCanvasState\<lparr>currentCommand :=
          Some \<lparr>cmd_id = ''a'', cmd_type = stroke,
                cmd_points = Some [\<lparr>pt_x = 1, pt_y = 1, pressure = None\<rparr>,
                                   \<lparr>pt_x = 2, pt_y = 2, pressure = None\<rparr>],
                cmd_style = None\<rparr>\<rparr>)
       (START_STROKE ''b'' \<lparr>pt_x = 7, pt_y = 8, pressure = None\<rparr>
          \<lparr>color = \<lparr>col_r = 0, col_g = 0, col_b = 0, col_a = None\<rparr>, width = 5,
           opacity = None\<rparr>)
     = initialCanvasState\<lparr>currentCommand :=
         Some \<lparr>cmd_id = ''b'', cmd_type = stroke,
               cmd_points = Some [\<lparr>pt_x = 7, pt_y = 8, pressure = None\<rparr>],
               cmd_style = Some \<lparr>color = \<lparr>col_r = 0, col_g = 0, col_b = 0, col_a = None\<rparr>,
                                 width = 5, opacity = None\<rparr>\<rparr>\<rparr>"
proof -
  have drawing: "currentCommand
     (initialCanvasState\<lparr>currentCommand :=
        Some \<lparr>cmd_id = ''a'', cmd_type = stroke,
              cmd_points = Some [\<lparr>pt_x = 1, pt_y = 1, pressure = None\<rparr>,
                                 \<lparr>pt_x = 2, pt_y = 2, pressure = None\<rparr>],
              cmd_style = None\<rparr>\<rparr>)
     = Some \<lparr>cmd_id = ''a'', cmd_type = stroke,
              cmd_points = Some [\<lparr>pt_x = 1, pt_y = 1, pressure = None\<rparr>,
                                 \<lparr>pt_x = 2, pt_y = 2, pressure = None\<rparr>],
              cmd_style = None\<rparr>"
    by simp
  show ?thesis
    using drawing
      second_pointerDown_restarts [OF drawing, of "''b''" "\<lparr>pt_x = 7, pt_y = 8, pressure = None\<rparr>"
        "\<lparr>color = \<lparr>col_r = 0, col_g = 0, col_b = 0, col_a = None\<rparr>, width = 5,
           opacity = None\<rparr>"]
    by (simp del: canvasReducer.simps)
qed

section \<open>Properties of path smoothing\<close>

lemma sqrt_ge_iff: "0 \<le> s \<Longrightarrow> (t \<le> sqrt s) = (t \<le> 0 \<or> t\<^sup>2 \<le> s)"
proof (cases "t \<le> 0")
  case True
  assume "0 \<le> s"
  then have "0 \<le> sqrt s" by simp
  with True have "t \<le> sqrt s" by linarith
  with True show ?thesis by simp
next
  case False
  assume s: "0 \<le> s"
  have "sqrt (t\<^sup>2) = t" using False by simp
  then have "(t \<le> sqrt s) = (sqrt (t\<^sup>2) \<le> sqrt s)" by simp
  also have "\<dots> = (t\<^sup>2 \<le> s)" by (rule real_sqrt_le_iff)
  finally show ?thesis using False by simp
qed

lemma simplifyLoop_acc:
  "simplifyLoop h t xs res l = res @ simplifyLoop h t xs [] l"
proof (induction xs arbitrary: res l)
  case Nil
  show ?case by simp
next
  case (Cons a xs)
  show ?case
    using Cons.IH [of "res @ [a]" a] Cons.IH [of "[a]" a] Cons.IH [of res l]
    by (simp add: Let_def)
qed

lemma simplifyLoop_length: "length (simplifyLoop h t xs [] l) \<le> length xs"
proof (induction xs arbitrary: l)
  case Nil
  show ?case by simp
next
  case (Cons a xs)
  show ?case
    using Cons.IH [of a] Cons.IH [of l] simplifyLoop_acc [of h t xs "[a]" a]
    by (simp add: Let_def)
qed

lemma simplifyLoop_all_kept:
  "length (simplifyLoop h t xs [] l) = length xs \<Longrightarrow> simplifyLoop h t xs [] l = xs"
proof (induction xs arbitrary: l)
  case Nil
  show ?case by simp
next
  case (Cons a xs)
  show ?case
  proof (cases "t \<le> sqrt ((pt_x (h a) - pt_x (h l))\<^sup>2 + (pt_y (h a) - pt_y (h l))\<^sup>2)")
    case True
    then have eq: "simplifyLoop h t (a # xs) [] l = a # simplifyLoop h t xs [] a"
      using simplifyLoop_acc [of h t xs "[a]" a] by (simp add: Let_def)
    with Cons.prems have "length (simplifyLoop h t xs [] a) = length xs" by simp
    then show ?thesis using Cons.IH eq by simp
  next
    case False
    then have "simplifyLoop h t (a # xs) [] l = simplifyLoop h t xs [] l"
      by (simp add: Let_def)
    with Cons.prems simplifyLoop_length [of h t xs l] show ?thesis by simp
  qed
qed

lemma simplifyLoop_idem:
  "simplifyLoop h t (simplifyLoop h t xs [] l) [] l = simplifyLoop h t xs [] l"
proof (induction xs arbitrary: l)
  case Nil
  show ?case by simp
next
  case (Cons a xs)
  show ?case
  proof (cases "t \<le> sqrt ((pt_x (h a) - pt_x (h l))\<^sup>2 + (pt_y (h a) - pt_y (h l))\<^sup>2)")
    case True
    then have eq: "simplifyLoop h t (a # xs) [] l = a # simplifyLoop h t xs [] a"
      using simplifyLoop_acc [of h t xs "[a]" a] by (simp add: Let_def)
    have "simplifyLoop h t (a # simplifyLoop h t xs [] a) [] l
            = a # simplifyLoop h t (simplifyLoop h t xs [] a) [] a"
      using True simplifyLoop_acc [of h t "simplifyLoop h t xs [] a" "[a]" a]
      by (simp add: Let_def)
    then show ?thesis using eq Cons.IH [of a] by simp
  next
    case False
    then show ?thesis using Cons.IH [of l] by (simp add: Let_def)
  qed
qed

lemma simplifyLoop_append:
  "simplifyLoop h t (xs @ ys) [] l
     = simplifyLoop h t xs [] l @ simplifyLoop h t ys [] (last (l # simplifyLoop h t xs [] l))"
proof (induction xs arbitrary: l)
  case Nil
  show ?case by simp
next
  case (Cons a xs)
  show ?case
  proof (cases "t \<le> sqrt ((pt_x (h a) - pt_x (h l))\<^sup>2 + (pt_y (h a) - pt_y (h l))\<^sup>2)")
    case True
    then have "simplifyLoop h t (a # zs) [] l = a # simplifyLoop h t zs [] a" for zs
      using simplifyLoop_acc [of h t zs "[a]" a] by (simp add: Let_def)
    then show ?thesis using Cons.IH [of a] by simp
  next
    case False
    then have "simplifyLoop h t (a # zs) [] l = simplifyLoop h t zs [] l" for zs
      by (simp add: Let_def)
    then show ?thesis using Cons.IH [of l] by simp
  qed
qed

text \<open>The result for three or more points, with the loop's result named.\<close>

lemma simplifyPath_long:
  assumes "2 < length (p # ps)"
  shows "simplifyPath h (p # ps) t =
     (let K = simplifyLoop h t ps [] p
      in if last (p # K) \<noteq> last ps then p # K @ [last ps] else p # K)"
proof -
  have ne: "ps \<noteq> []" using assms by auto
  have l1: "(p # ps) ! (length (p # ps) - 1) = last ps"
    using ne by (simp add: last_conv_nth)
  have l2: "(p # K) ! (length (p # K) - 1) = last (p # K)" for K :: "ref list"
    using last_conv_nth [of "p # K"] by simp
  have "simplifyLoop h t ps [p] p = p # simplifyLoop h t ps [] p"
    using simplifyLoop_acc [of h t ps "[p]" p] by simp
  then show ?thesis
    using assms l1 l2 [of "simplifyLoop h t ps [] p"]
    by (simp add: simplifyPath_def Let_def del: last.simps)
qed

text \<open>
  Claim C3. For a non-empty array of points and any tolerance, the result of \<open>simplifyPath\<close>
  is non-empty, its first element is the first point of the input and its last element the
  last point of the input (the same objects), it is no longer than the input, and it is the
  input itself when the input has at most two points.
\<close>

theorem simplifyPath_keeps_ends:
  assumes "points \<noteq> []"
  shows "simplifyPath h points tolerance \<noteq> []
     \<and> hd (simplifyPath h points tolerance) = hd points
     \<and> last (simplifyPath h points tolerance) = last points
     \<and> length (simplifyPath h points tolerance) \<le> length points
     \<and> (length points \<le> 2 \<longrightarrow> simplifyPath h points tolerance = points)"
proof (cases "length points \<le> 2")
  case True
  then show ?thesis using assms by (simp add: simplifyPath_def)
next
  case False
  obtain p ps where pts: "points = p # ps" using assms by (cases points) auto
  define K where "K = simplifyLoop h tolerance ps [] p"
  have long: "2 < length (p # ps)" using False pts by simp
  have ne: "ps \<noteq> []" using long by auto
  have sp: "simplifyPath h points tolerance =
      (if last (p # K) \<noteq> last ps then p # K @ [last ps] else p # K)"
    using simplifyPath_long [OF long, of h tolerance] by (simp add: pts K_def Let_def)
  have len: "length K \<le> length ps"
    unfolding K_def by (rule simplifyLoop_length)
  have strict: "length K < length ps" if "last (p # K) \<noteq> last ps"
  proof (rule ccontr)
    assume "\<not> length K < length ps"
    with len have "length K = length ps" by simp
    then have "K = ps" unfolding K_def by (rule simplifyLoop_all_kept)
    with that ne show False by simp
  qed
  show ?thesis
  proof (cases "last (p # K) \<noteq> last ps")
    case True
    with sp have "simplifyPath h points tolerance = p # K @ [last ps]" by simp
    then show ?thesis using pts ne strict [OF True] False by simp
  next
    case False
    with sp have "simplifyPath h points tolerance = p # K" by simp
    then show ?thesis using pts ne len False \<open>\<not> length points \<le> 2\<close> by simp
  qed
qed

text \<open>
  The points of this store lie on the x axis, the reference \<open>r\<close> at \<open>x = r\<close>. Of the points at
  0, 1, 5 and 6 the loop keeps 0 and 5, and the last point is added at the end. The two
  points at 3 and 4 are closer than the tolerance and are returned as they are.
\<close>

theorem simplifyPath_keeps_ends_witness:
  "[0, 1, 5, 6] \<noteq> ([] :: ref list)
   \<and> simplifyPath (\<lambda>r. \<lparr>pt_x = real r, pt_y = 0, pressure = None\<rparr>) [0, 1, 5, 6] 2 = [0, 5, 6]
   \<and> hd (simplifyPath (\<lambda>r. \<lparr>pt_x = real r, pt_y = 0, pressure = None\<rparr>) [0, 1, 5, 6] 2) = 0
   \<and> last (simplifyPath (\<lambda>r. \<lparr>pt_x = real r, pt_y = 0, pressure = None\<rparr>) [0, 1, 5, 6] 2) = 6
   \<and> length [3, 4 :: ref] \<le> 2
   \<and> simplifyPath (\<lambda>r. \<lparr>pt_x = real r, pt_y = 0, pressure = None\<rparr>) [3, 4] 2 = [3, 4]"
proof -
  have ne: "[0, 1, 5, 6] \<noteq> ([] :: ref list)" by simp
  have ne2: "[3, 4] \<noteq> ([] :: ref list)" by simp
  have run: "simplifyPath (\<lambda>r. \<lparr>pt_x = real r, pt_y = 0, pressure = None\<rparr>) [0, 1, 5, 6] 2
               = [0, 5, 6]"
    by (simp add: simplifyPath_def sqrt_ge_iff Let_def)
  show ?thesis
    using ne run
      simplifyPath_keeps_ends [OF ne, of "\<lambda>r. \<lparr>pt_x = real r, pt_y = 0, pressure = None\<rparr>" 2]
      simplifyPath_keeps_ends [OF ne2, of "\<lambda>r. \<lparr>pt_x = real r, pt_y = 0, pressure = None\<rparr>" 2]
    by simp
qed

text \<open>
  Claim C9. At the default tolerance 2, simplifying a simplified array gives the same array:
  \<open>simplifyPath(simplifyPath(ps, 2), 2) = simplifyPath(ps, 2)\<close>, for every store and every
  array of points.
\<close>

theorem simplifyPath_idempotent:
  "simplifyPath h (simplifyPath h points 2) 2 = simplifyPath h points 2"
proof (cases "length points \<le> 2")
  case True
  then show ?thesis by (simp add: simplifyPath_def)
next
  case False
  then obtain p ps where pts: "points = p # ps" by (cases points) auto
  define K where "K = simplifyLoop h 2 ps [] p"
  have long: "2 < length (p # ps)" using False pts by simp
  have sp: "simplifyPath h points 2 =
      (if last (p # K) \<noteq> last ps then p # K @ [last ps] else p # K)"
    using simplifyPath_long [OF long, of h 2] by (simp add: pts K_def Let_def)
  have KK: "simplifyLoop h 2 K [] p = K"
    unfolding K_def by (rule simplifyLoop_idem)
  show ?thesis
  proof (cases "last (p # K) \<noteq> last ps")
    case forced: True
    define r where "r = p # K @ [last ps]"
    have spr: "simplifyPath h points 2 = r" using sp forced by (simp add: r_def)
    show ?thesis
    proof (cases "length r \<le> 2")
      case True
      then show ?thesis using spr by (simp add: simplifyPath_def)
    next
      case False
      then have long': "2 < length (p # (K @ [last ps]))" by (simp add: r_def)
      have loop: "simplifyLoop h 2 (K @ [last ps]) [] p
                    = K @ simplifyLoop h 2 [last ps] [] (last (p # K))"
        using simplifyLoop_append [of h 2 K "[last ps]" p] KK by simp
      have "simplifyPath h r 2 = r"
      proof (cases "simplifyLoop h 2 [last ps] [] (last (p # K)) = []")
        case True
        then show ?thesis
          using simplifyPath_long [OF long', of h 2] loop forced
          by (simp add: r_def Let_def del: last.simps simplifyLoop.simps)
      next
        case False
        then have "simplifyLoop h 2 [last ps] [] (last (p # K)) = [last ps]"
          by (simp add: Let_def split: if_splits)
        moreover have "last (p # K @ [last ps]) = last ps" by simp
        ultimately show ?thesis
          using simplifyPath_long [OF long', of h 2] loop
          by (simp add: r_def Let_def del: last.simps simplifyLoop.simps)
      qed
      then show ?thesis using spr by simp
    qed
  next
    case kept: False
    define r where "r = p # K"
    have spr: "simplifyPath h points 2 = r" using sp kept by (simp add: r_def)
    show ?thesis
    proof (cases "length r \<le> 2")
      case True
      then show ?thesis using spr by (simp add: simplifyPath_def)
    next
      case False
      then have long': "2 < length (p # K)" by (simp add: r_def)
      then have "K \<noteq> []" by auto
      then have "simplifyPath h r 2 = r"
        using simplifyPath_long [OF long', of h 2] KK
        by (simp add: r_def Let_def del: simplifyLoop.simps)
      then show ?thesis using spr by simp
    qed
  qed
qed

lemma render_Nil: "render fmt [] = []"
  by (simp add: render_def)

lemma render_Cons: "render fmt (s # segs) = renderSeg fmt s @ render fmt segs"
  by (simp add: render_def)

lemma render_append: "render fmt (xs @ ys) = render fmt xs @ render fmt ys"
  by (simp add: render_def)

lemma smoothLoop_render:
  "smoothLoop fmt ps i path = path @ render fmt (map (interiorSeg ps) [i..<length ps - 1])"
proof (induction fmt ps i path rule: smoothLoop.induct)
  case (1 fmt ps i path)
  show ?case
  proof (cases "i < length ps - 1")
    case True
    define cp where "cp = getControlPoints (ps ! (i - 1)) (ps ! i) (ps ! (i + 1))"
    define q where "q = '' Q '' @ fmt (pt_x cp) @ '','' @ fmt (pt_y cp) @ '' ''
                 @ fmt ((pt_x (ps ! i) + pt_x (ps ! (i + 1))) / 2) @ '',''
                 @ fmt ((pt_y (ps ! i) + pt_y (ps ! (i + 1))) / 2)"
    have q_seg: "q = renderSeg fmt (interiorSeg ps i)"
      by (simp add: q_def cp_def interiorSeg_def getControlPoints_def)
    have upt: "[i..<length ps - 1] = i # [i + 1..<length ps - 1]"
      using True by (simp add: upt_conv_Cons)
    have "smoothLoop fmt ps i path = smoothLoop fmt ps (i + 1) (path @ q)"
      using True by (subst smoothLoop.simps) (simp add: Let_def q_def cp_def)
    also have "\<dots> = (path @ q) @ render fmt (map (interiorSeg ps) [i + 1..<length ps - 1])"
      using "1.IH" [OF True refl refl refl refl] by (simp add: q_def cp_def)
    finally show ?thesis
      by (simp only: upt list.map render_Cons append_assoc q_seg)
  next
    case False
    then show ?thesis
      by (subst smoothLoop.simps) (simp add: render_Nil)
  qed
qed

text \<open>
  Claim C4. \<open>createSmoothPath\<close> returns the empty path for fewer than two points; for
  exactly two points the path is a move to the first point and a straight line to the second;
  for three or more points the path ends with a straight line to the last point of the input.
\<close>

theorem createSmoothPath_cases:
  "(length ps < 2 \<longrightarrow> createSmoothPath fmt ps = [])
   \<and> (length ps = 2 \<longrightarrow>
        createSmoothPath fmt ps =
          render fmt [MoveTo (pt_x (ps ! 0)) (pt_y (ps ! 0)),
                      LineTo (pt_x (ps ! 1)) (pt_y (ps ! 1))])
   \<and> (3 \<le> length ps \<longrightarrow>
        (\<exists>segs. createSmoothPath fmt ps =
           render fmt (segs @ [LineTo (pt_x (last ps)) (pt_y (last ps))])))"
proof (intro conjI impI)
  assume "length ps < 2"
  then show "createSmoothPath fmt ps = []" by (simp add: createSmoothPath_def)
next
  assume "length ps = 2"
  then show "createSmoothPath fmt ps =
          render fmt [MoveTo (pt_x (ps ! 0)) (pt_y (ps ! 0)),
                      LineTo (pt_x (ps ! 1)) (pt_y (ps ! 1))]"
    by (simp add: createSmoothPath_def Let_def render_Cons render_Nil)
next
  assume len: "3 \<le> length ps"
  then have "ps \<noteq> []" by auto
  then have lst: "ps ! (length ps - 1) = last ps" by (simp add: last_conv_nth)
  define body where "body =
     ''M '' @ fmt (pt_x (ps ! 0)) @ '','' @ fmt (pt_y (ps ! 0))"
  let ?segs = "[MoveTo (pt_x (ps ! 0)) (pt_y (ps ! 0)),
         QuadTo (pt_x (ps ! 0)) (pt_y (ps ! 0))
                ((pt_x (ps ! 0) + pt_x (ps ! 1)) / 2) ((pt_y (ps ! 0) + pt_y (ps ! 1)) / 2)]
        @ map (interiorSeg ps) [1..<length ps - 1]"
  have "createSmoothPath fmt ps =
          render fmt (?segs @ [LineTo (pt_x (last ps)) (pt_y (last ps))])"
    using len lst
    by (simp add: createSmoothPath_def Let_def smoothLoop_render render_Cons render_append
        render_Nil)
  then show "\<exists>segs. createSmoothPath fmt ps =
           render fmt (segs @ [LineTo (pt_x (last ps)) (pt_y (last ps))])"
    by blast
qed

theorem createSmoothPath_cases_witness:
  "createSmoothPath showIntegral [\<lparr>pt_x = 4, pt_y = 2, pressure = None\<rparr>] = []
   \<and> createSmoothPath showIntegral
        [\<lparr>pt_x = 0, pt_y = 0, pressure = None\<rparr>, \<lparr>pt_x = 10, pt_y = 0, pressure = None\<rparr>]
       = ''M 0,0 L 10,0''
   \<and> (\<exists>segs. createSmoothPath showIntegral
          [\<lparr>pt_x = 0, pt_y = 0, pressure = None\<rparr>, \<lparr>pt_x = 6, pt_y = 0, pressure = None\<rparr>,
           \<lparr>pt_x = 12, pt_y = 6, pressure = None\<rparr>]
        = render showIntegral (segs @ [LineTo 12 6]))"
  using createSmoothPath_cases [of "[\<lparr>pt_x = 4, pt_y = 2, pressure = None\<rparr>]" showIntegral]
    createSmoothPath_cases
      [of "[\<lparr>pt_x = 0, pt_y = 0, pressure = None\<rparr>, \<lparr>pt_x = 10, pt_y = 0, pressure = None\<rparr>]"
          showIntegral]
    createSmoothPath_cases
      [of "[\<lparr>pt_x = 0, pt_y = 0, pressure = None\<rparr>, \<lparr>pt_x = 6, pt_y = 0, pressure = None\<rparr>,
            \<lparr>pt_x = 12, pt_y = 6, pressure = None\<rparr>]" showIntegral]
  by (simp add: render_Cons render_Nil showIntegral_def showNat.simps)

text \<open>
  Claim C5. For three or more points the path is, in this order: the move to the first point;
  a quadratic segment whose control point is the first point and whose end is the midpoint of
  the first two points; for each interior index \<open>i\<close> from 1 to \<open>n - 2\<close> the quadratic segment
  with control point \<open>p\<^sub>i + (p\<^sub>i\<^sub>+\<^sub>1 - p\<^sub>i\<^sub>-\<^sub>1) / 6\<close> and end the midpoint of \<open>p\<^sub>i\<close> and
  \<open>p\<^sub>i\<^sub>+\<^sub>1\<close> (\<open>interiorSeg\<close>); and the straight line to the last point. Coordinates are real
  numbers, so the arithmetic is exact.
\<close>

theorem createSmoothPath_segments:
  assumes "3 \<le> length ps"
  shows "createSmoothPath fmt ps =
     render fmt
       ([MoveTo (pt_x (ps ! 0)) (pt_y (ps ! 0)),
         QuadTo (pt_x (ps ! 0)) (pt_y (ps ! 0))
                ((pt_x (ps ! 0) + pt_x (ps ! 1)) / 2) ((pt_y (ps ! 0) + pt_y (ps ! 1)) / 2)]
        @ map (interiorSeg ps) [1..<length ps - 1]
        @ [LineTo (pt_x (ps ! (length ps - 1))) (pt_y (ps ! (length ps - 1)))])"
  using assms
  by (simp add: createSmoothPath_def Let_def smoothLoop_render render_Cons render_append
      render_Nil)

theorem createSmoothPath_segments_witness:
  "3 \<le> length [\<lparr>pt_x = 0, pt_y = 0, pressure = None\<rparr>, \<lparr>pt_x = 6, pt_y = 0, pressure = None\<rparr>,
                 \<lparr>pt_x = 12, pt_y = 6, pressure = None\<rparr>, \<lparr>pt_x = 24, pt_y = 12, pressure = None\<rparr>]
   \<and> createSmoothPath showIntegral
        [\<lparr>pt_x = 0, pt_y = 0, pressure = None\<rparr>, \<lparr>pt_x = 6, pt_y = 0, pressure = None\<rparr>,
         \<lparr>pt_x = 12, pt_y = 6, pressure = None\<rparr>, \<lparr>pt_x = 24, pt_y = 12, pressure = None\<rparr>]
       = render showIntegral
           [MoveTo 0 0, QuadTo 0 0 3 0, QuadTo 8 1 9 3, QuadTo 15 8 18 9, LineTo 24 12]
   \<and> render showIntegral
        [MoveTo 0 0, QuadTo 0 0 3 0, QuadTo 8 1 9 3, QuadTo 15 8 18 9, LineTo 24 12]
       = ''M 0,0 Q 0,0 3,0 Q 8,1 9,3 Q 15,8 18,9 L 24,12''"
proof -
  have len: "3 \<le> length [\<lparr>pt_x = 0, pt_y = 0, pressure = None\<rparr>,
                 \<lparr>pt_x = 6, pt_y = 0, pressure = None\<rparr>,
                 \<lparr>pt_x = 12, pt_y = 6, pressure = None\<rparr>,
                 \<lparr>pt_x = 24, pt_y = 12, pressure = None\<rparr>]"
    by simp
  have idx: "[1..<3] = [1, 2]"
    by (simp add: upt_conv_Cons)
  have shown: "render showIntegral
        [MoveTo 0 0, QuadTo 0 0 3 0, QuadTo 8 1 9 3, QuadTo 15 8 18 9, LineTo 24 12]
       = ''M 0,0 Q 0,0 3,0 Q 8,1 9,3 Q 15,8 18,9 L 24,12''"
    by (simp add: render_Cons render_Nil showIntegral_def showNat.simps)
  show ?thesis
    using len shown createSmoothPath_segments [OF len, of showIntegral]
    by (simp add: idx interiorSeg_def)
qed

end
